theory Spec2Isabelle
  imports Complex_Main
begin

section \<open>Inventory ledger: InventoryService\<close>

text \<open>
  The schema declares \<open>InventoryItem\<close> with \<open>productId String @unique\<close> and
  \<open>quantity Int\<close>, so the table is a partial map from product id to the row's
  \<open>quantity\<close>; the columns \<open>id\<close> and \<open>updatedAt\<close>, which the service never reads, are
  left out. Quantities are integers without a bound: a statement whose value does not fit
  the 32-bit column is refused by the database and makes the method raise an
  \<open>InternalServerErrorException\<close>, which is outside what these definitions describe.

  The database is an in-memory table here: a statement fails only for a reason the data
  decides (no matching row). Both methods start one callback for each item with
  \<open>Promise.all(items.map(async ...))\<close> inside one interactive transaction. Each callback
  runs up to its first \<open>await\<close> when \<open>map\<close> calls it, so the updates of all items are
  issued, in list order, before any callback reads a result, and the statements of one
  transaction run one after the other. A callback whose update matched no row then reads
  the row again, in the table all those updates have left, and throws.
\<close>

record StockUpdateItem =
  productId :: string
  quantity :: int

type_synonym inventory = "string \<rightharpoonup> int"

text \<open>The two texts of \<open>reason\<close> in \<open>decreaseStock\<close>, kept as structured values.\<close>

datatype stock_reason =
    NotFoundInInventory string
  | InsufficientStock string int int

datatype error =
    InsufficientStockError stock_reason
  | PaymentFailedError
  | InternalServerErrorException
  | Error
  | PrismaClientKnownRequestError

text \<open>
  \<open>tx.inventoryItem.updateMany({ where: { productId, quantity: { gte: n } },
  data: { quantity: { decrement: n } } })\<close>: the pair of \<open>count\<close> and the updated table.
\<close>

definition updateMany_decrement :: "string \<Rightarrow> int \<Rightarrow> inventory \<Rightarrow> nat \<times> inventory" where
  "updateMany_decrement pid n stock =
     (case stock pid of
        None \<Rightarrow> (0, stock)
      | Some q \<Rightarrow> if n \<le> q then (1, stock(pid \<mapsto> q - n)) else (0, stock))"

text \<open>
  \<open>tx.inventoryItem.updateMany({ where: { productId }, data: { quantity: { increment: n } } })\<close>.
\<close>

definition updateMany_increment :: "string \<Rightarrow> int \<Rightarrow> inventory \<Rightarrow> nat \<times> inventory" where
  "updateMany_increment pid n stock =
     (case stock pid of
        None \<Rightarrow> (0, stock)
      | Some q \<Rightarrow> (1, stock(pid \<mapsto> q + n)))"

text \<open>
  The parameter \<open>items\<close> of the service's methods is written \<open>its\<close>, since
  \<open>items\<close> is a field of the workflow's input below.
\<close>

text \<open>
  The update one callback of \<open>decreaseStock\<close> issues: whether it matched no row
  (\<open>result.count === 0\<close>), and the transaction's working table after it. An item with a
  quantity that is not positive issues nothing.
\<close>

definition decrease_item :: "StockUpdateItem \<Rightarrow> inventory \<Rightarrow> bool \<times> inventory" where
  "decrease_item item stock =
     (if quantity item \<le> 0 then (False, stock)
      else
        (case updateMany_decrement (productId item) (quantity item) stock of
           (count, stock') \<Rightarrow> (count = 0, stock')))"

text \<open>
  All callbacks of a batch: the first item whose update matched no row, if there is one,
  and the working table after the updates of the whole batch.
\<close>

fun decrease_all :: "StockUpdateItem list \<Rightarrow> inventory \<Rightarrow> StockUpdateItem option \<times> inventory" where
  "decrease_all [] stock = (None, stock)"
| "decrease_all (item # its) stock =
     (case decrease_item item stock of
        (zero, stock') \<Rightarrow>
          (case decrease_all its stock' of
             (failed, work) \<Rightarrow> (if zero then Some item else failed, work)))"

text \<open>
  The \<open>reason\<close> of the error for an item that matched no row, from the row that
  \<open>tx.inventoryItem.findUnique\<close> reads in the working table.
\<close>

definition shortage :: "StockUpdateItem \<Rightarrow> inventory \<Rightarrow> stock_reason" where
  "shortage item work =
     (case work (productId item) of
        None \<Rightarrow> NotFoundInInventory (productId item)
      | Some available \<Rightarrow> InsufficientStock (productId item) (quantity item) available)"

text \<open>
  \<open>decreaseStock\<close>: the result (an error or nothing) and the committed table. An error
  thrown inside \<open>$transaction\<close> rolls the transaction back, so the committed table is the
  one the call started from.
\<close>

definition decreaseStock :: "StockUpdateItem list \<Rightarrow> inventory \<Rightarrow> (error + unit) \<times> inventory" where
  "decreaseStock its stock =
     (if its = [] then (Inr (), stock)
      else
        (case decrease_all its stock of
           (Some item, work) \<Rightarrow> (Inl (InsufficientStockError (shortage item work)), stock)
         | (None, work) \<Rightarrow> (Inr (), work)))"

text \<open>
  The callback of \<open>increaseStock\<close> for one item: a missing row (\<open>count = 0\<close>) is logged
  and nothing is thrown.
\<close>

definition increase_item :: "StockUpdateItem \<Rightarrow> inventory \<Rightarrow> inventory" where
  "increase_item item stock =
     (if quantity item \<le> 0 then stock
      else snd (updateMany_increment (productId item) (quantity item) stock))"

fun increase_all :: "StockUpdateItem list \<Rightarrow> inventory \<Rightarrow> inventory" where
  "increase_all [] stock = stock"
| "increase_all (item # its) stock = increase_all its (increase_item item stock)"

definition increaseStock :: "StockUpdateItem list \<Rightarrow> inventory \<Rightarrow> (error + unit) \<times> inventory" where
  "increaseStock its stock =
     (if its = [] then (Inr (), stock) else (Inr (), increase_all its stock))"

text \<open>\<open>getStockQuantity\<close>: the quantity, or null for a product without a row.\<close>

definition getStockQuantity :: "string \<Rightarrow> inventory \<Rightarrow> int option" where
  "getStockQuantity pid stock = stock pid"

text \<open>A batch of requests against the ledger, applied one after the other.\<close>

datatype stock_request =
    DecreaseStock "StockUpdateItem list"
  | IncreaseStock "StockUpdateItem list"

fun apply_request :: "stock_request \<Rightarrow> inventory \<Rightarrow> inventory" where
  "apply_request (DecreaseStock its) stock = snd (decreaseStock its stock)"
| "apply_request (IncreaseStock its) stock = snd (increaseStock its stock)"

fun apply_requests :: "stock_request list \<Rightarrow> inventory \<Rightarrow> inventory" where
  "apply_requests [] stock = stock"
| "apply_requests (r # rs) stock = apply_requests rs (apply_request r stock)"

text \<open>The quantity a batch asks for a product: its items with a positive quantity.\<close>

definition requested :: "string \<Rightarrow> StockUpdateItem list \<Rightarrow> int" where
  "requested pid its =
     sum_list (map quantity (filter (\<lambda>i. productId i = pid \<and> 0 < quantity i) its))"

text \<open>An item whose conditional decrement matches no row of the table.\<close>

definition matches_zero_rows :: "StockUpdateItem \<Rightarrow> inventory \<Rightarrow> bool" where
  "matches_zero_rows item stock =
     (0 < quantity item \<and>
      fst (updateMany_decrement (productId item) (quantity item) stock) = 0)"

text \<open>
  Reading the batch item by item: the first item whose conditional decrement matches no
  row, with the table the items before it have left; \<open>None\<close> when every decrement of the
  batch matches a row.
\<close>

fun first_zero_row :: "StockUpdateItem list \<Rightarrow> inventory \<Rightarrow> (StockUpdateItem \<times> inventory) option" where
  "first_zero_row [] stock = None"
| "first_zero_row (item # its) stock =
     (if matches_zero_rows item stock then Some (item, stock)
      else first_zero_row its
             (if quantity item \<le> 0 then stock
              else snd (updateMany_decrement (productId item) (quantity item) stock)))"

text \<open>The table in which every row has lost what the batch asks for its product.\<close>

definition after_decrease :: "StockUpdateItem list \<Rightarrow> inventory \<Rightarrow> inventory" where
  "after_decrease its stock = (\<lambda>p. map_option (\<lambda>q. q - requested p its) (stock p))"


section \<open>Payment ledger: PaymentService and the payment activities\<close>

text \<open>
  The schema's \<open>enum PaymentStatus\<close> and \<open>model PaymentTransaction\<close>: \<open>id\<close> is the
  primary key, \<open>externalTransactionId String? @unique\<close> carries a unique index (rows
  without a value do not collide), \<open>amount\<close> is a \<open>Float\<close>. An amount is carried as a
  real number; nothing here computes with it. The columns \<open>createdAt\<close> and
  \<open>updatedAt\<close>, which no code reads, are left out.
\<close>

datatype PaymentStatus =
    PaymentStatus_PENDING
  | PaymentStatus_SUCCEEDED
  | PaymentStatus_FAILED
  | PaymentStatus_REFUND_INITIATED
  | PaymentStatus_REFUNDED
  | PaymentStatus_REFUND_FAILED

record PaymentTransaction =
  id' :: string
  orderId :: string
  externalTransactionId :: "string option"
  amount :: real
  status :: PaymentStatus

text \<open>
  The payment gateway is simulated inside \<open>PaymentService\<close>: each simulated call is
  logged here, and its random outcome (\<open>isPaymentSuccessful\<close>, \<open>isRefundSuccessful\<close>,
  \<open>mockExternalTxId\<close>) is an argument of the model, as is the id the database gives a
  new row.
\<close>

datatype gateway_call =
    GatewayCharge string real
  | GatewayRefund string

record payment_db =
  paymentTransaction :: "PaymentTransaction list"
  gateway :: "gateway_call list"

text \<open>
  \<open>prisma.paymentTransaction.create\<close> with status PENDING and no external id; it throws
  when the id is taken.
\<close>

definition paymentTransaction_create ::
    "string \<Rightarrow> string \<Rightarrow> real \<Rightarrow> payment_db \<Rightarrow> (PaymentTransaction \<times> payment_db) option" where
  "paymentTransaction_create newId oid amt db =
     (if newId \<in> set (map id' (paymentTransaction db)) then None
      else
        (let row = \<lparr>id' = newId, orderId = oid, externalTransactionId = None, amount = amt,
                     status = PaymentStatus_PENDING\<rparr>
         in Some (row, db\<lparr>paymentTransaction := paymentTransaction db @ [row]\<rparr>)))"

definition paymentTransaction_findUnique :: "string \<Rightarrow> payment_db \<Rightarrow> PaymentTransaction option" where
  "paymentTransaction_findUnique rid db = find (\<lambda>r. id' r = rid) (paymentTransaction db)"

text \<open>
  The \<open>data\<close> of an update: every update of the sources sets \<open>status\<close>, and two of them
  set \<open>externalTransactionId\<close> as well.
\<close>

definition set_data :: "PaymentStatus \<Rightarrow> string option \<Rightarrow> PaymentTransaction \<Rightarrow> PaymentTransaction" where
  "set_data st ext r =
     (case ext of
        None \<Rightarrow> r\<lparr>status := st\<rparr>
      | Some x \<Rightarrow> r\<lparr>status := st, externalTransactionId := Some x\<rparr>)"

text \<open>
  \<open>prisma.paymentTransaction.update({ where: { id }, data })\<close>: it throws when no row
  has the id, and when \<open>data\<close> sets an external id that another row already holds (the
  unique index).
\<close>

definition paymentTransaction_update ::
    "string \<Rightarrow> PaymentStatus \<Rightarrow> string option \<Rightarrow> payment_db \<Rightarrow> payment_db option" where
  "paymentTransaction_update rid st ext db =
     (if rid \<notin> set (map id' (paymentTransaction db)) then None
      else if ext \<noteq> None \<and>
              ext \<in> set (map externalTransactionId
                           (filter (\<lambda>r. id' r \<noteq> rid) (paymentTransaction db)))
      then None
      else Some (db\<lparr>paymentTransaction :=
                      map (\<lambda>r. if id' r = rid then set_data st ext r else r)
                          (paymentTransaction db)\<rparr>))"

text \<open>
  \<open>PaymentService.charge\<close>. A database error at the first two statements becomes an
  \<open>InternalServerErrorException\<close>; one at the update to FAILED is logged only.
\<close>

definition PaymentService_charge ::
    "string \<Rightarrow> bool \<Rightarrow> string \<Rightarrow> string \<Rightarrow> real \<Rightarrow> payment_db
      \<Rightarrow> (error + string \<times> string) \<times> payment_db" where
  "PaymentService_charge newId isPaymentSuccessful mockExternalTxId oid amt db =
     (case paymentTransaction_create newId oid amt db of
        None \<Rightarrow> (Inl InternalServerErrorException, db)
      | Some (paymentRecord, db1) \<Rightarrow>
          (let db2 = db1\<lparr>gateway := gateway db1 @ [GatewayCharge oid amt]\<rparr> in
           if isPaymentSuccessful then
             (case paymentTransaction_update (id' paymentRecord) PaymentStatus_SUCCEEDED
                     (Some mockExternalTxId) db2 of
                Some db3 \<Rightarrow> (Inr (mockExternalTxId, id' paymentRecord), db3)
              | None \<Rightarrow> (Inl InternalServerErrorException, db2))
           else
             (case paymentTransaction_update (id' paymentRecord) PaymentStatus_FAILED None db2 of
                Some db3 \<Rightarrow> (Inl PaymentFailedError, db3)
              | None \<Rightarrow> (Inl PaymentFailedError, db2))))"

text \<open>
  \<open>PaymentService.refund\<close>: an error for a row that does not exist, nothing for a row
  that is not SUCCEEDED, and otherwise REFUND_INITIATED, the gateway, and REFUNDED or
  REFUND_FAILED with an error.
\<close>

definition PaymentService_refund ::
    "bool \<Rightarrow> string \<Rightarrow> payment_db \<Rightarrow> (error + unit) \<times> payment_db" where
  "PaymentService_refund isRefundSuccessful paymentRecordId db =
     (case paymentTransaction_findUnique paymentRecordId db of
        None \<Rightarrow> (Inl Error, db)
      | Some transaction \<Rightarrow>
          if status transaction \<noteq> PaymentStatus_SUCCEEDED then (Inr (), db)
          else
            (case paymentTransaction_update paymentRecordId PaymentStatus_REFUND_INITIATED
                    None db of
               None \<Rightarrow> (Inl InternalServerErrorException, db)
             | Some db1 \<Rightarrow>
                 (let db2 = db1\<lparr>gateway := gateway db1 @ [GatewayRefund paymentRecordId]\<rparr> in
                  if isRefundSuccessful then
                    (case paymentTransaction_update paymentRecordId PaymentStatus_REFUNDED
                            None db2 of
                       Some db3 \<Rightarrow> (Inr (), db3)
                     | None \<Rightarrow> (Inl InternalServerErrorException, db2))
                  else
                    (case paymentTransaction_update paymentRecordId PaymentStatus_REFUND_FAILED
                            None db2 of
                       Some db3 \<Rightarrow> (Inl Error, db3)
                     | None \<Rightarrow> (Inl Error, db2)))))"

text \<open>
  The activity \<open>chargePayment\<close>. Its \<open>catch\<close> takes whatever the \<open>try\<close> block threw
  (the service's error, or the database error of the activity's own update), marks the
  activity's row FAILED and throws a \<open>PaymentFailedError\<close>.
\<close>

definition chargePayment_catch :: "string \<Rightarrow> payment_db \<Rightarrow> (error + string \<times> string) \<times> payment_db" where
  "chargePayment_catch rid db =
     (case paymentTransaction_update rid PaymentStatus_FAILED None db of
        None \<Rightarrow> (Inl PrismaClientKnownRequestError, db)
      | Some db' \<Rightarrow> (Inl PaymentFailedError, db'))"

definition chargePayment ::
    "string \<Rightarrow> string \<Rightarrow> bool \<Rightarrow> string \<Rightarrow> string \<Rightarrow> real \<Rightarrow> payment_db
      \<Rightarrow> (error + string \<times> string) \<times> payment_db" where
  "chargePayment activityRowId serviceRowId isPaymentSuccessful mockExternalTxId oid amt db =
     (case paymentTransaction_create activityRowId oid amt db of
        None \<Rightarrow> (Inl PrismaClientKnownRequestError, db)
      | Some (paymentRecord, db1) \<Rightarrow>
          (case PaymentService_charge serviceRowId isPaymentSuccessful mockExternalTxId oid amt db1 of
             (Inl e, db2) \<Rightarrow> chargePayment_catch (id' paymentRecord) db2
           | (Inr (transactionId, servicePaymentRecordId), db2) \<Rightarrow>
               (case paymentTransaction_update (id' paymentRecord) PaymentStatus_SUCCEEDED
                       (Some transactionId) db2 of
                  Some db3 \<Rightarrow> (Inr (transactionId, id' paymentRecord), db3)
                | None \<Rightarrow> chargePayment_catch (id' paymentRecord) db2)))"

text \<open>
  The activity \<open>refundPayment\<close>: REFUND_INITIATED first, then the service, then
  REFUNDED; its \<open>catch\<close> marks the row REFUND_FAILED and throws an \<open>Error\<close>.
\<close>

definition refundPayment_catch :: "string \<Rightarrow> payment_db \<Rightarrow> (error + unit) \<times> payment_db" where
  "refundPayment_catch rid db =
     (case paymentTransaction_update rid PaymentStatus_REFUND_FAILED None db of
        None \<Rightarrow> (Inl PrismaClientKnownRequestError, db)
      | Some db' \<Rightarrow> (Inl Error, db'))"

definition refundPayment :: "bool \<Rightarrow> string \<Rightarrow> payment_db \<Rightarrow> (error + unit) \<times> payment_db" where
  "refundPayment isRefundSuccessful paymentRecordId db =
     (case paymentTransaction_update paymentRecordId PaymentStatus_REFUND_INITIATED None db of
        None \<Rightarrow> (Inl PrismaClientKnownRequestError, db)
      | Some db1 \<Rightarrow>
          (case PaymentService_refund isRefundSuccessful paymentRecordId db1 of
             (Inl e, db2) \<Rightarrow> refundPayment_catch paymentRecordId db2
           | (Inr u, db2) \<Rightarrow>
               (case paymentTransaction_update paymentRecordId PaymentStatus_REFUNDED None db2 of
                  Some db3 \<Rightarrow> (Inr (), db3)
                | None \<Rightarrow> refundPayment_catch paymentRecordId db2)))"

text \<open>
  The empty ledger, and the ledger after \<open>PaymentService.charge\<close> has charged 20 for
  \<open>order-1\<close> on it.
\<close>

definition empty_db :: payment_db where
  "empty_db = \<lparr>paymentTransaction = [], gateway = []\<rparr>"

definition charged_row :: PaymentTransaction where
  "charged_row = \<lparr>id' = ''pay-1'', orderId = ''order-1'',
                   externalTransactionId = Some ''MOCK_TX_1'', amount = 20,
                   status = PaymentStatus_SUCCEEDED\<rparr>"

definition charged_db :: payment_db where
  "charged_db = \<lparr>paymentTransaction = [charged_row],
                  gateway = [GatewayCharge ''order-1'' 20]\<rparr>"


section \<open>Saga orchestrator: processOrderWorkflow\<close>

text \<open>The schema's \<open>enum OrderStatus\<close>, its thirteen values in the schema's order.\<close>

datatype OrderStatus =
    OrderStatus_PENDING
  | OrderStatus_PROCESSING
  | OrderStatus_PAYMENT_FAILED
  | OrderStatus_PAID
  | OrderStatus_INVENTORY_CHECK_FAILED
  | OrderStatus_AWAITING_FULFILLMENT
  | OrderStatus_FULFILLMENT_ISSUE
  | OrderStatus_READY_FOR_PICKUP
  | OrderStatus_SHIPPED
  | OrderStatus_COMPLETED
  | OrderStatus_CANCELLED
  | OrderStatus_REFUNDING
  | OrderStatus_REFUNDED

text \<open>
  The items of the workflow's input, \<open>{ productId, quantity, priceAtOrder, name? }\<close>;
  the kitchen receives them without the price, the inventory without price and name.
  Prices and amounts are \<open>Float\<close> columns in the schema and are carried as real
  numbers; the workflow passes them on and computes nothing with them.
\<close>

record KitchenItem = StockUpdateItem +
  name :: "string option"

record WorkflowItem = KitchenItem +
  priceAtOrder :: real

record OrderProcessingWorkflowInput =
  userId :: string
  userEmail :: string
  items :: "WorkflowItem list"
  totalAmount :: real

text \<open>
  What the workflow catches. The cause of an \<open>ActivityFailure\<close> is tested with
  \<open>instanceof\<close> and by its \<open>name\<close>. An object of one of the two error classes of the
  activities has the name its constructor sets. An error thrown inside an activity does
  not reach the workflow as an object of its class: the engine hands the workflow an
  \<open>ApplicationFailure\<close>, whose \<open>name\<close> is \<open>ApplicationFailure\<close> and whose field
  \<open>type\<close> holds the name of the thrown error, the string that
  \<open>nonRetryableErrorTypes\<close> lists. Any other cause carries the name it arrives with.
\<close>

datatype cause =
    PaymentFailedError_object string
  | InsufficientStockError_object string
  | ApplicationFailure string string
  | Other_cause string string

fun cause_name :: "cause \<Rightarrow> string" where
  "cause_name (PaymentFailedError_object m) = ''PaymentFailedError''"
| "cause_name (InsufficientStockError_object m) = ''InsufficientStockError''"
| "cause_name (ApplicationFailure t m) = ''ApplicationFailure''"
| "cause_name (Other_cause n m) = n"

fun cause_message :: "cause \<Rightarrow> string" where
  "cause_message (PaymentFailedError_object m) = m"
| "cause_message (InsufficientStockError_object m) = m"
| "cause_message (ApplicationFailure t m) = m"
| "cause_message (Other_cause n m) = m"

datatype failure =
    ActivityFailure string "cause option"
  | CancelledFailure string
  | OtherFailure string

fun failure_message :: "failure \<Rightarrow> string" where
  "failure_message (ActivityFailure m c) = m"
| "failure_message (CancelledFailure m) = m"
| "failure_message (OtherFailure m) = m"

definition is_PaymentFailedError :: "cause option \<Rightarrow> bool" where
  "is_PaymentFailedError c =
     (case c of
        None \<Rightarrow> False
      | Some e \<Rightarrow>
          (case e of PaymentFailedError_object m \<Rightarrow> True | _ \<Rightarrow> False)
          \<or> cause_name e = ''PaymentFailedError'')"

definition is_InsufficientStockError :: "cause option \<Rightarrow> bool" where
  "is_InsufficientStockError c =
     (case c of
        None \<Rightarrow> False
      | Some e \<Rightarrow>
          (case e of InsufficientStockError_object m \<Rightarrow> True | _ \<Rightarrow> False)
          \<or> cause_name e = ''InsufficientStockError'')"

text \<open>
  The classification at the head of the \<open>catch\<close> block: the new \<open>finalStatus\<close> and
  \<open>failureReason\<close>.
\<close>

fun classify :: "failure \<Rightarrow> OrderStatus \<times> string" where
  "classify (ActivityFailure m c) =
     (if is_PaymentFailedError c then
        (OrderStatus_PAYMENT_FAILED, ''Payment was declined or failed.'')
      else if is_InsufficientStockError c then
        (OrderStatus_INVENTORY_CHECK_FAILED, ''One or more items are out of stock.'')
      else
        (OrderStatus_CANCELLED,
         ''Activity execution failed: '' @ (case c of Some e \<Rightarrow> cause_message e | None \<Rightarrow> m)))"
| "classify (CancelledFailure m) = (OrderStatus_CANCELLED, ''Workflow was cancelled.'')"
| "classify (OtherFailure m) = (OrderStatus_CANCELLED, ''Workflow execution error: '' @ m)"

text \<open>The activities as the workflow calls them, with their arguments.\<close>

datatype activity_call =
    CreatePendingOrder string string real "WorkflowItem list"
  | UpdateOrderStatus string OrderStatus
  | ChargePayment string real
  | ValidateAndDecreaseInventory string "StockUpdateItem list"
  | NotifyKitchen string "KitchenItem list"
  | SendConfirmationEmail string string
  | RefundPaymentCompensation string
  | RestoreInventoryCompensation string "StockUpdateItem list"
  | UpdateOrderStatusCompensation string OrderStatus
  | SendFailureEmailCompensation string string string

text \<open>
  What the hosting engine hands back to the workflow at each \<open>await\<close>, once its own
  retries are over: a failure, or the activity's value. One field for each call of the
  workflow's text, in the order of that text.
\<close>

record activity_results =
  createPendingOrder_result :: "failure + string"
  markProcessing_result :: "failure option"
  chargePayment_result :: "failure + string \<times> string"
  markPaid_result :: "failure option"
  validateAndDecreaseInventory_result :: "failure option"
  markAwaitingFulfillment_result :: "failure option"
  notifyKitchen_result :: "failure option"
  sendConfirmationEmail_result :: "failure option"
  markCompleted_result :: "failure option"
  refundPaymentCompensation_result :: "failure option"
  restoreInventoryCompensation_result :: "failure option"
  updateOrderStatusCompensation_result :: "failure option"
  sendFailureEmailCompensation_result :: "failure option"

definition stock_items :: "WorkflowItem list \<Rightarrow> StockUpdateItem list" where
  "stock_items its = map (\<lambda>i. \<lparr>productId = productId i, quantity = quantity i\<rparr>) its"

definition kitchen_items :: "WorkflowItem list \<Rightarrow> KitchenItem list" where
  "kitchen_items its =
     map (\<lambda>i. \<lparr>productId = productId i, quantity = quantity i, name = name i\<rparr>) its"

text \<open>
  The \<open>try\<close> block. It gives the activities called, in order, and either the order id
  it returns with, or what was thrown together with the values of \<open>orderId\<close>,
  \<open>paymentRecordId\<close> and \<open>inventoryUpdated\<close> at that moment.
\<close>

definition forward_steps ::
    "OrderProcessingWorkflowInput \<Rightarrow> activity_results
      \<Rightarrow> activity_call list \<times> (failure \<times> string option \<times> string option \<times> bool + string)" where
  "forward_steps inp res =
     (let c1 = [CreatePendingOrder (userId inp) (userEmail inp) (totalAmount inp) (items inp)] in
      case createPendingOrder_result res of
        Inl err \<Rightarrow> (c1, Inl (err, None, None, False))
      | Inr oid \<Rightarrow>
     (let c2 = c1 @ [UpdateOrderStatus oid OrderStatus_PROCESSING] in
      case markProcessing_result res of
        Some err \<Rightarrow> (c2, Inl (err, Some oid, None, False))
      | None \<Rightarrow>
     (let c3 = c2 @ [ChargePayment oid (totalAmount inp)] in
      case chargePayment_result res of
        Inl err \<Rightarrow> (c3, Inl (err, Some oid, None, False))
      | Inr (transactionId, prid) \<Rightarrow>
     (let c4 = c3 @ [UpdateOrderStatus oid OrderStatus_PAID] in
      case markPaid_result res of
        Some err \<Rightarrow> (c4, Inl (err, Some oid, Some prid, False))
      | None \<Rightarrow>
     (let c5 = c4 @ [ValidateAndDecreaseInventory oid (stock_items (items inp))] in
      case validateAndDecreaseInventory_result res of
        Some err \<Rightarrow> (c5, Inl (err, Some oid, Some prid, False))
      | None \<Rightarrow>
     (let c6 = c5 @ [UpdateOrderStatus oid OrderStatus_AWAITING_FULFILLMENT] in
      case markAwaitingFulfillment_result res of
        Some err \<Rightarrow> (c6, Inl (err, Some oid, Some prid, True))
      | None \<Rightarrow>
     (let c7 = c6 @ [NotifyKitchen oid (kitchen_items (items inp))] in
      case notifyKitchen_result res of
        Some err \<Rightarrow> (c7, Inl (err, Some oid, Some prid, True))
      | None \<Rightarrow>
     (let c8 = c7 @ [SendConfirmationEmail oid (userEmail inp)] in
      case sendConfirmationEmail_result res of
        Some err \<Rightarrow> (c8, Inl (err, Some oid, Some prid, True))
      | None \<Rightarrow>
     (let c9 = c8 @ [UpdateOrderStatus oid OrderStatus_COMPLETED] in
      case markCompleted_result res of
        Some err \<Rightarrow> (c9, Inl (err, Some oid, Some prid, True))
      | None \<Rightarrow> (c9, Inr oid))))))))))"

text \<open>
  The inner \<open>try\<close> block of the compensation, for an order id that passed \<open>if (orderId)\<close>:
  the compensation activities called, and the first failure among them, if any. A string
  passes \<open>if (paymentRecordId)\<close> when it is neither null nor empty.
\<close>

definition compensation ::
    "OrderProcessingWorkflowInput \<Rightarrow> activity_results \<Rightarrow> string \<Rightarrow> string option \<Rightarrow> bool
      \<Rightarrow> OrderStatus \<Rightarrow> string \<Rightarrow> activity_call list \<times> failure option" where
  "compensation inp res oid paymentRecordId inventoryUpdated finalStatus failureReason =
     (let refund = (case paymentRecordId of
                      None \<Rightarrow> []
                    | Some prid \<Rightarrow> if prid = [] then [] else [RefundPaymentCompensation prid]) in
      if refund \<noteq> [] \<and> refundPaymentCompensation_result res \<noteq> None
      then (refund, refundPaymentCompensation_result res)
      else
     (let restore = (if inventoryUpdated
                     then [RestoreInventoryCompensation oid (stock_items (items inp))] else []) in
      if inventoryUpdated \<and> restoreInventoryCompensation_result res \<noteq> None
      then (refund @ restore, restoreInventoryCompensation_result res)
      else
     (let upd = [UpdateOrderStatusCompensation oid finalStatus] in
      if updateOrderStatusCompensation_result res \<noteq> None
      then (refund @ restore @ upd, updateOrderStatusCompensation_result res)
      else
        (refund @ restore @ upd @ [SendFailureEmailCompensation oid (userEmail inp) failureReason],
         sendFailureEmailCompensation_result res))))"

datatype workflow_result =
    Returned string OrderStatus
  | Thrown string

text \<open>
  \<open>processOrderWorkflow\<close>: the activities it calls, in order, and how it ends.
\<close>

definition processOrderWorkflow ::
    "OrderProcessingWorkflowInput \<Rightarrow> activity_results \<Rightarrow> activity_call list \<times> workflow_result" where
  "processOrderWorkflow inp res =
     (case forward_steps inp res of
        (calls, Inr oid) \<Rightarrow> (calls, Returned oid OrderStatus_COMPLETED)
      | (calls, Inl (err, orderId_var, paymentRecordId, inventoryUpdated)) \<Rightarrow>
          (case classify err of
             (finalStatus, failureReason) \<Rightarrow>
               (case orderId_var of
                  None \<Rightarrow> (calls, Returned ''N/A'' finalStatus)
                | Some oid \<Rightarrow>
                    if oid = [] then (calls, Returned oid finalStatus)
                    else
                      (case compensation inp res oid paymentRecordId inventoryUpdated
                              finalStatus failureReason of
                         (comp_calls, Some compensationError) \<Rightarrow>
                           (calls @ comp_calls,
                            Thrown (''Compensation failed after initial error: ''
                                    @ failure_message compensationError
                                    @ ''. Original error: '' @ failure_message err))
                       | (comp_calls, None) \<Rightarrow>
                           (calls @ comp_calls, Returned oid finalStatus)))))"

text \<open>
  The status an activity writes to the order: \<open>createPendingOrder\<close> creates the order
  with status PENDING, \<open>updateOrderStatus\<close> sets the status it is given.
\<close>

fun status_written :: "activity_call \<Rightarrow> OrderStatus list" where
  "status_written (CreatePendingOrder u e t its) = [OrderStatus_PENDING]"
| "status_written (UpdateOrderStatus oid st) = [st]"
| "status_written (UpdateOrderStatusCompensation oid st) = [st]"
| "status_written c = []"

definition status_history :: "activity_call list \<Rightarrow> OrderStatus list" where
  "status_history calls = concat (map status_written calls)"

text \<open>
  The compensation as a list of steps, each one with whether it applies and with its
  result: the steps that apply are attempted in order, up to and including the first one
  that fails.
\<close>

fun attempted_until_failure :: "(bool \<times> activity_call \<times> failure option) list \<Rightarrow> activity_call list" where
  "attempted_until_failure [] = []"
| "attempted_until_failure ((applies, c, r) # rest) =
     (if \<not> applies then attempted_until_failure rest
      else if r = None then c # attempted_until_failure rest
      else [c])"

fun first_failure :: "(bool \<times> activity_call \<times> failure option) list \<Rightarrow> failure option" where
  "first_failure [] = None"
| "first_failure ((applies, c, r) # rest) =
     (if applies \<and> r \<noteq> None then r else first_failure rest)"

definition non_empty :: "string option \<Rightarrow> bool" where
  "non_empty v = (case v of None \<Rightarrow> False | Some s \<Rightarrow> s \<noteq> [])"

definition compensation_steps ::
    "OrderProcessingWorkflowInput \<Rightarrow> activity_results \<Rightarrow> string \<Rightarrow> string option \<Rightarrow> bool
      \<Rightarrow> OrderStatus \<Rightarrow> string \<Rightarrow> (bool \<times> activity_call \<times> failure option) list" where
  "compensation_steps inp res oid paymentRecordId inventoryUpdated finalStatus failureReason =
     [(non_empty paymentRecordId,
       RefundPaymentCompensation (case paymentRecordId of Some prid \<Rightarrow> prid | None \<Rightarrow> []),
       refundPaymentCompensation_result res),
      (inventoryUpdated,
       RestoreInventoryCompensation oid (stock_items (items inp)),
       restoreInventoryCompensation_result res),
      (True,
       UpdateOrderStatusCompensation oid finalStatus,
       updateOrderStatusCompensation_result res),
      (True,
       SendFailureEmailCompensation oid (userEmail inp) failureReason,
       sendFailureEmailCompensation_result res)]"


subsection \<open>Activity options\<close>

text \<open>
  The options the workflow gives \<open>proxyActivities\<close>, durations in seconds: the first for
  the forward activities, the second for the compensation activities.
\<close>

record RetryPolicy =
  initialInterval :: nat
  backoffCoefficient :: nat
  maximumAttempts :: nat
  nonRetryableErrorTypes :: "string list"

record ActivityOptions =
  startToCloseTimeout :: nat
  heartbeatTimeout :: "nat option"
  retry :: RetryPolicy

definition forward_options :: ActivityOptions where
  "forward_options =
     \<lparr>startToCloseTimeout = 60, heartbeatTimeout = Some 30,
      retry = \<lparr>initialInterval = 2, backoffCoefficient = 2, maximumAttempts = 5,
               nonRetryableErrorTypes = [''PaymentFailedError'', ''InsufficientStockError'']\<rparr>\<rparr>"

definition compensation_options :: ActivityOptions where
  "compensation_options =
     \<lparr>startToCloseTimeout = 300, heartbeatTimeout = None,
      retry = \<lparr>initialInterval = 5, backoffCoefficient = 2, maximumAttempts = 10,
               nonRetryableErrorTypes = []\<rparr>\<rparr>"

subsection \<open>A sample order\<close>

definition sample_input :: OrderProcessingWorkflowInput where
  "sample_input =
     \<lparr>userId = ''user-1'', userEmail = ''user@example.org'',
      items = [\<lparr>productId = ''productA'', quantity = 2, name = Some ''A'', priceAtOrder = 10\<rparr>],
      totalAmount = 20\<rparr>"

definition all_succeed :: activity_results where
  "all_succeed =
     \<lparr>createPendingOrder_result = Inr ''order-1'',
      markProcessing_result = None,
      chargePayment_result = Inr (''MOCK_TX_1'', ''pay-1''),
      markPaid_result = None,
      validateAndDecreaseInventory_result = None,
      markAwaitingFulfillment_result = None,
      notifyKitchen_result = None,
      sendConfirmationEmail_result = None,
      markCompleted_result = None,
      refundPaymentCompensation_result = None,
      restoreInventoryCompensation_result = None,
      updateOrderStatusCompensation_result = None,
      sendFailureEmailCompensation_result = None\<rparr>"

text \<open>
  The failures the workflow catches when the activity \<open>chargePayment\<close> has thrown a
  \<open>PaymentFailedError\<close>, when \<open>validateAndDecreaseInventory\<close> has thrown an
  \<open>InsufficientStockError\<close>, and when an activity has run out of time.
\<close>

definition payment_declined :: failure where
  "payment_declined =
     ActivityFailure ''Activity task failed''
       (Some (ApplicationFailure ''PaymentFailedError'' ''declined''))"

definition out_of_stock :: failure where
  "out_of_stock =
     ActivityFailure ''Activity task failed''
       (Some (ApplicationFailure ''InsufficientStockError'' ''short''))"

definition timed_out :: failure where
  "timed_out =
     ActivityFailure ''Activity task timed out''
       (Some (Other_cause ''TimeoutFailure'' ''timeout''))"


section \<open>Properties of the inventory ledger\<close>

lemma requested_Nil: "requested p [] = 0"
  by (simp add: requested_def)

lemma requested_Cons:
  "requested p (item # its) =
     (if productId item = p \<and> 0 < quantity item then quantity item else 0) + requested p its"
  by (simp add: requested_def)

lemma decrease_item_zero: "fst (decrease_item item stock) = matches_zero_rows item stock"
  by (simp add: decrease_item_def matches_zero_rows_def split: prod.splits)

lemma decrease_item_table:
  "snd (decrease_item item stock) =
     (if quantity item \<le> 0 then stock
      else snd (updateMany_decrement (productId item) (quantity item) stock))"
  by (simp add: decrease_item_def split: prod.splits)

lemma decrease_all_Cons_fst:
  "fst (decrease_all (item # its) stock) =
     (if fst (decrease_item item stock) then Some item
      else fst (decrease_all its (snd (decrease_item item stock))))"
  by (simp add: split_beta)

lemma decrease_all_Cons_snd:
  "snd (decrease_all (item # its) stock) = snd (decrease_all its (snd (decrease_item item stock)))"
  by (simp add: split_beta)

lemma updateMany_decrement_keeps_nonneg:
  "stock p = Some q \<Longrightarrow> 0 \<le> q \<Longrightarrow>
   \<exists>q'. snd (updateMany_decrement pid n stock) p = Some q' \<and> 0 \<le> q'"
  by (auto simp: updateMany_decrement_def split: option.splits)

lemma decrease_item_keeps_nonneg:
  "stock p = Some q \<Longrightarrow> 0 \<le> q \<Longrightarrow>
   \<exists>q'. snd (decrease_item item stock) p = Some q' \<and> 0 \<le> q'"
  by (simp add: decrease_item_table updateMany_decrement_keeps_nonneg)

lemma decrease_all_keeps_nonneg:
  "stock p = Some q \<Longrightarrow> 0 \<le> q \<Longrightarrow>
   \<exists>q'. snd (decrease_all its stock) p = Some q' \<and> 0 \<le> q'"
proof (induction its arbitrary: stock q)
  case Nil
  then show ?case by simp
next
  case (Cons item its)
  from decrease_item_keeps_nonneg [of stock p q item] Cons.prems
  obtain m where m: "snd (decrease_item item stock) p = Some m" "0 \<le> m" by blast
  from Cons.IH [of "snd (decrease_item item stock)" m] m
  show ?case by (simp only: decrease_all_Cons_snd)
qed

lemma decreaseStock_keeps_nonneg:
  "stock p = Some q \<Longrightarrow> 0 \<le> q \<Longrightarrow>
   \<exists>q'. snd (decreaseStock its stock) p = Some q' \<and> 0 \<le> q'"
  using decrease_all_keeps_nonneg [of stock p q its]
  by (auto simp: decreaseStock_def split: prod.splits option.splits)

lemma increase_item_grows:
  "stock p = Some q \<Longrightarrow> \<exists>q'. increase_item item stock p = Some q' \<and> q \<le> q'"
  by (auto simp: increase_item_def updateMany_increment_def split: option.splits)

lemma increase_all_grows:
  "stock p = Some q \<Longrightarrow> \<exists>q'. increase_all its stock p = Some q' \<and> q \<le> q'"
proof (induction its arbitrary: stock q)
  case Nil
  then show ?case by simp
next
  case (Cons item its)
  from increase_item_grows [of stock p q item] Cons.prems
  obtain m where m: "increase_item item stock p = Some m" "q \<le> m" by blast
  from Cons.IH [of "increase_item item stock" m] m(1)
  obtain q' where "increase_all its (increase_item item stock) p = Some q'" "m \<le> q'"
    by blast
  with m(2) show ?case by auto
qed

lemma increaseStock_grows:
  "stock p = Some q \<Longrightarrow> \<exists>q'. snd (increaseStock its stock) p = Some q' \<and> q \<le> q'"
  using increase_all_grows [of stock p q its] by (simp add: increaseStock_def)

lemma apply_request_keeps_nonneg:
  assumes "stock p = Some q" and "0 \<le> q"
  shows "\<exists>q'. apply_request r stock p = Some q' \<and> 0 \<le> q'"
proof (cases r)
  case (DecreaseStock its)
  with decreaseStock_keeps_nonneg [of stock p q its] assms show ?thesis by simp
next
  case (IncreaseStock its)
  with increaseStock_grows [of stock p q its] assms show ?thesis by auto
qed

lemma apply_requests_keep_nonneg:
  "stock p = Some q \<Longrightarrow> 0 \<le> q \<Longrightarrow> \<exists>q'. apply_requests rs stock p = Some q' \<and> 0 \<le> q'"
proof (induction rs arbitrary: stock q)
  case Nil
  then show ?case by simp
next
  case (Cons r rs)
  from apply_request_keeps_nonneg [of stock p q r] Cons.prems
  obtain m where "apply_request r stock p = Some m" "0 \<le> m" by blast
  then show ?case using Cons.IH [of "apply_request r stock" m] by simp
qed

text \<open>
  C1. A row whose quantity is not negative keeps a quantity that is not negative through
  any sequence of \<open>decreaseStock\<close> and \<open>increaseStock\<close> calls. The conditional update of
  \<open>decreaseStock\<close> takes the requested quantity from a row only when the row holds at
  least that much, and leaves the row as it is otherwise; \<open>increaseStock\<close> never lowers
  a quantity.
\<close>

theorem stock_never_negative:
  assumes "stock p = Some q" and "0 \<le> q"
  shows "(\<exists>q'. apply_requests rs stock p = Some q' \<and> 0 \<le> q') \<and>
         snd (updateMany_decrement p n stock) p = Some (if n \<le> q then q - n else q) \<and>
         (\<exists>q'. snd (increaseStock its stock) p = Some q' \<and> q \<le> q')"
proof (intro conjI)
  show "\<exists>q'. apply_requests rs stock p = Some q' \<and> 0 \<le> q'"
    using assms by (rule apply_requests_keep_nonneg)
  show "snd (updateMany_decrement p n stock) p = Some (if n \<le> q then q - n else q)"
    using assms(1) by (simp add: updateMany_decrement_def)
  show "\<exists>q'. snd (increaseStock its stock) p = Some q' \<and> q \<le> q'"
    using assms(1) by (rule increaseStock_grows)
qed

theorem stock_never_negative_witness:
  "(Map.empty(''tea'' \<mapsto> 3)) ''tea'' = Some (3::int) \<and> (0::int) \<le> 3 \<and>
   apply_requests
     [DecreaseStock [\<lparr>productId = ''tea'', quantity = 2\<rparr>],
      DecreaseStock [\<lparr>productId = ''tea'', quantity = 2\<rparr>],
      IncreaseStock [\<lparr>productId = ''tea'', quantity = 4\<rparr>]]
     (Map.empty(''tea'' \<mapsto> 3)) ''tea'' = Some 5 \<and>
   snd (updateMany_decrement ''tea'' 4 (Map.empty(''tea'' \<mapsto> 3))) ''tea'' = Some 3"
  using stock_never_negative [of "Map.empty(''tea'' \<mapsto> 3)" "''tea''" 3
      "[DecreaseStock [\<lparr>productId = ''tea'', quantity = 2\<rparr>],
        DecreaseStock [\<lparr>productId = ''tea'', quantity = 2\<rparr>],
        IncreaseStock [\<lparr>productId = ''tea'', quantity = 4\<rparr>]]" 4 "[]"]
  by (simp add: decreaseStock_def decrease_item_def updateMany_decrement_def
                increaseStock_def increase_item_def updateMany_increment_def)

subsection \<open>All or nothing\<close>

lemma after_decrease_Nil: "after_decrease [] stock = stock"
proof
  fix p show "after_decrease [] stock p = stock p"
    by (cases "stock p") (simp_all add: after_decrease_def requested_Nil)
qed

lemma after_decrease_skip:
  "quantity item \<le> 0 \<Longrightarrow> after_decrease (item # its) stock = after_decrease its stock"
  by (simp add: after_decrease_def requested_Cons)

lemma after_decrease_step:
  assumes "0 < quantity item" and "\<not> matches_zero_rows item stock"
  shows "after_decrease (item # its) stock =
         after_decrease its (snd (updateMany_decrement (productId item) (quantity item) stock))"
proof
  fix p
  from assms obtain q where q: "stock (productId item) = Some q" "quantity item \<le> q"
    by (auto simp: matches_zero_rows_def updateMany_decrement_def split: option.splits if_splits)
  show "after_decrease (item # its) stock p =
        after_decrease its (snd (updateMany_decrement (productId item) (quantity item) stock)) p"
    using q assms(1)
    by (cases "stock p") (auto simp: after_decrease_def requested_Cons updateMany_decrement_def)
qed

lemma decrease_all_failed:
  "fst (decrease_all its stock) = map_option fst (first_zero_row its stock)"
proof (induction its arbitrary: stock)
  case Nil
  show ?case by simp
next
  case (Cons item its)
  have "fst (decrease_all (item # its) stock) =
          (if matches_zero_rows item stock then Some item
           else fst (decrease_all its (snd (decrease_item item stock))))"
    by (simp only: decrease_all_Cons_fst decrease_item_zero)
  then show ?case
    by (simp add: Cons.IH decrease_item_table)
qed

lemma decrease_all_table:
  "first_zero_row its stock = None \<Longrightarrow> snd (decrease_all its stock) = after_decrease its stock"
proof (induction its arbitrary: stock)
  case Nil
  show ?case by (simp add: after_decrease_Nil)
next
  case (Cons item its)
  from Cons.prems have nz: "\<not> matches_zero_rows item stock"
    and rest: "first_zero_row its (snd (decrease_item item stock)) = None"
    by (auto simp: decrease_item_table split: if_splits)
  have "snd (decrease_all (item # its) stock) = snd (decrease_all its (snd (decrease_item item stock)))"
    by (rule decrease_all_Cons_snd)
  also have "\<dots> = after_decrease its (snd (decrease_item item stock))"
    using Cons.IH [OF rest] .
  also have "\<dots> = after_decrease (item # its) stock"
  proof (cases "quantity item \<le> 0")
    case True
    then show ?thesis by (simp add: decrease_item_table after_decrease_skip)
  next
    case False
    with nz show ?thesis by (simp add: decrease_item_table after_decrease_step)
  qed
  finally show ?case .
qed


lemma first_zero_row_NoneD:
  "first_zero_row its stock = None \<Longrightarrow> its = pre @ item # post \<Longrightarrow>
   \<not> matches_zero_rows item (after_decrease pre stock)"
proof (induction pre arbitrary: its stock)
  case Nil
  then show ?case by (auto simp: after_decrease_Nil split: if_splits)
next
  case (Cons x pre)
  define nxt where "nxt = snd (decrease_item x stock)"
  from Cons.prems have nz: "\<not> matches_zero_rows x stock"
    and rest: "first_zero_row (pre @ item # post) nxt = None"
    by (auto simp: nxt_def decrease_item_table split: if_splits)
  have "after_decrease (x # pre) stock = after_decrease pre nxt"
  proof (cases "quantity x \<le> 0")
    case True
    then show ?thesis by (simp add: nxt_def decrease_item_table after_decrease_skip)
  next
    case False
    with nz show ?thesis by (simp add: nxt_def decrease_item_table after_decrease_step)
  qed
  with Cons.IH [OF rest refl] show ?case by simp
qed


lemma decreaseStock_cases:
  "decreaseStock its stock =
     (case first_zero_row its stock of
        Some (item, mid) \<Rightarrow>
          (Inl (InsufficientStockError (shortage item (snd (decrease_all its stock)))), stock)
      | None \<Rightarrow> (Inr (), after_decrease its stock))"
proof (cases "first_zero_row its stock")
  case None
  then have "fst (decrease_all its stock) = None"
    by (simp add: decrease_all_failed)
  moreover have "snd (decrease_all its stock) = after_decrease its stock"
    using None by (rule decrease_all_table)
  ultimately have "decrease_all its stock = (None, after_decrease its stock)"
    by (simp add: prod_eq_iff)
  with None show ?thesis
    by (simp add: decreaseStock_def after_decrease_Nil)
next
  case (Some hit)
  obtain item mid where hit: "hit = (item, mid)" by (cases hit) auto
  from Some hit have ne: "its \<noteq> []" by auto
  from Some hit have "fst (decrease_all its stock) = Some item"
    by (simp add: decrease_all_failed)
  then have "decrease_all its stock = (Some item, snd (decrease_all its stock))"
    by (simp add: prod_eq_iff)
  then have "decreaseStock its stock =
               (Inl (InsufficientStockError (shortage item (snd (decrease_all its stock)))), stock)"
    using ne by (auto simp: decreaseStock_def split: prod.splits)
  with Some hit show ?thesis by simp
qed













subsection \<open>Decrease, then restore\<close>

lemma increase_all_lookup:
  "increase_all its stock p = map_option (\<lambda>q. q + requested p its) (stock p)"
proof (induction its arbitrary: stock)
  case Nil
  show ?case by (cases "stock p") (simp_all add: requested_Nil)
next
  case (Cons item its)
  show ?case
    by (cases "stock p")
       (auto simp: Cons.IH requested_Cons increase_item_def updateMany_increment_def
             split: option.splits)
qed

lemma increase_after_decrease:
  "increase_all its (after_decrease its stock) = stock"
proof
  fix p show "increase_all its (after_decrease its stock) p = stock p"
    by (cases "stock p") (simp_all add: increase_all_lookup after_decrease_def)
qed

lemma batch_decrease_then_increase:
  assumes "decreaseStock its stock = (Inr (), mid)"
  shows "increaseStock its mid = (Inr (), stock)"
proof (cases "first_zero_row its stock")
  case None
  with assms have "mid = after_decrease its stock"
    by (simp add: decreaseStock_cases)
  then show ?thesis
    by (simp add: increaseStock_def increase_after_decrease after_decrease_Nil)
next
  case (Some hit)
  with assms show ?thesis
    by (simp add: decreaseStock_cases split: prod.splits)
qed

text \<open>
  C8. For a product whose row holds \<open>Q\<close>, with \<open>0 < N \<le> Q\<close>: \<open>decreaseStock\<close> for that
  product with quantity \<open>N\<close> succeeds and leaves \<open>Q - N\<close>, and \<open>increaseStock\<close> for it
  with quantity \<open>N\<close> then gives back the table the two calls started from.
\<close>

theorem decrease_then_increase_restores:
  assumes "stock p = Some Q" and "N \<le> Q" and "0 < N"
  shows "\<exists>mid. decreaseStock [\<lparr>productId = p, quantity = N\<rparr>] stock = (Inr (), mid) \<and>
           mid p = Some (Q - N) \<and>
           increaseStock [\<lparr>productId = p, quantity = N\<rparr>] mid = (Inr (), stock)"
proof -
  let ?mid = "stock(p \<mapsto> Q - N)"
  have d: "decreaseStock [\<lparr>productId = p, quantity = N\<rparr>] stock = (Inr (), ?mid)"
    using assms by (simp add: decreaseStock_def decrease_item_def updateMany_decrement_def)
  have "?mid(p \<mapsto> Q - N + N) = stock"
    using assms(1) by (auto simp: fun_eq_iff)
  then have i: "increaseStock [\<lparr>productId = p, quantity = N\<rparr>] ?mid = (Inr (), stock)"
    using assms(3) by (simp add: increaseStock_def increase_item_def updateMany_increment_def)
  from d i show ?thesis by simp
qed

theorem decrease_then_increase_restores_witness:
  "(Map.empty(''tea'' \<mapsto> 3, ''rice'' \<mapsto> 7)) ''tea'' = Some (3::int) \<and> (2::int) \<le> 3 \<and> (0::int) < 2 \<and>
   snd (increaseStock [\<lparr>productId = ''tea'', quantity = 2\<rparr>]
         (snd (decreaseStock [\<lparr>productId = ''tea'', quantity = 2\<rparr>]
                 (Map.empty(''tea'' \<mapsto> 3, ''rice'' \<mapsto> 7))))) ''tea'' = Some 3"
  using decrease_then_increase_restores [of "Map.empty(''tea'' \<mapsto> 3, ''rice'' \<mapsto> 7)" "''tea''" 3 2]
  by (simp add: decreaseStock_def decrease_item_def updateMany_decrement_def
                increaseStock_def increase_item_def updateMany_increment_def)


section \<open>Properties of the payment ledger\<close>

lemma set_data_id: "id' (set_data st ext r) = id' r"
  by (simp add: set_data_def split: option.splits)

lemma set_data_status: "status (set_data st ext r) = st"
  by (simp add: set_data_def split: option.splits)

lemma find_after_update:
  "find (\<lambda>r. id' r = rid) (map (\<lambda>r. if id' r = rid then set_data st ext r else r) rows) =
   map_option (set_data st ext) (find (\<lambda>r. id' r = rid) rows)"
  by (induction rows) (simp_all add: set_data_id)

lemma update_status_lookup:
  assumes "paymentTransaction_update rid st ext db = Some db'"
  shows "\<exists>t. paymentTransaction_findUnique rid db' = Some t \<and> status t = st"
proof -
  from assms have mem: "rid \<in> set (map id' (paymentTransaction db))"
    and db': "paymentTransaction db' =
                map (\<lambda>r. if id' r = rid then set_data st ext r else r) (paymentTransaction db)"
    by (auto simp: paymentTransaction_update_def split: if_splits)
  from mem obtain t where t: "find (\<lambda>r. id' r = rid) (paymentTransaction db) = Some t"
    by (cases "find (\<lambda>r. id' r = rid) (paymentTransaction db)") (auto simp: find_None_iff)
  have "find (\<lambda>r. id' r = rid) (paymentTransaction db') = Some (set_data st ext t)"
    unfolding db' using t by (simp add: find_after_update)
  then show ?thesis by (simp add: paymentTransaction_findUnique_def set_data_status)
qed

lemma update_keeps_gateway:
  "paymentTransaction_update rid st ext db = Some db' \<Longrightarrow> gateway db' = gateway db"
  by (auto simp: paymentTransaction_update_def split: if_splits)

lemma update_keeps_ids:
  "paymentTransaction_update rid st ext db = Some db' \<Longrightarrow>
   map id' (paymentTransaction db') = map id' (paymentTransaction db)"
  by (auto simp: paymentTransaction_update_def set_data_id split: if_splits)

lemma status_update_succeeds:
  "rid \<in> set (map id' (paymentTransaction db)) \<Longrightarrow>
   \<exists>db'. paymentTransaction_update rid st None db = Some db'"
  by (simp add: paymentTransaction_update_def)

text \<open>
  Whatever the ledger holds, the activity \<open>refundPayment\<close> leaves the gateway alone: it
  has moved the row to REFUND_INITIATED before \<open>PaymentService.refund\<close> looks the row
  up, so the service finds a row that is not SUCCEEDED and returns at once.
\<close>

lemma refundPayment_gateway_untouched:
  "gateway (snd (refundPayment isRefundSuccessful rid db)) = gateway db"
proof (cases "paymentTransaction_update rid PaymentStatus_REFUND_INITIATED None db")
  case None
  then show ?thesis by (simp add: refundPayment_def)
next
  case (Some db1)
  from update_status_lookup [OF Some] obtain t where
    t: "paymentTransaction_findUnique rid db1 = Some t" "status t = PaymentStatus_REFUND_INITIATED"
    by blast
  then have svc: "PaymentService_refund isRefundSuccessful rid db1 = (Inr (), db1)"
    by (simp add: PaymentService_refund_def)
  have g1: "gateway db1 = gateway db" using Some by (rule update_keeps_gateway)
  from Some have "rid \<in> set (map id' (paymentTransaction db))"
    by (auto simp: paymentTransaction_update_def split: if_splits)
  with update_keeps_ids [OF Some] have "rid \<in> set (map id' (paymentTransaction db1))"
    by simp
  from status_update_succeeds [OF this, of PaymentStatus_REFUNDED]
  obtain db3 where db3: "paymentTransaction_update rid PaymentStatus_REFUNDED None db1 = Some db3"
    by blast
  have "refundPayment isRefundSuccessful rid db = (Inr (), db3)"
    using Some svc db3 by (simp add: refundPayment_def)
  with update_keeps_gateway [OF db3] g1 show ?thesis by simp
qed

text \<open>
  For every row the ledger holds, and whatever its status and the gateway's answer, the
  activity \<open>refundPayment\<close> returns without an error and leaves the row REFUNDED.
\<close>

lemma refundPayment_always_refunded:
  assumes "rid \<in> set (map id' (paymentTransaction db))"
  shows "\<exists>db'. refundPayment isRefundSuccessful rid db = (Inr (), db') \<and>
               (\<exists>t. paymentTransaction_findUnique rid db' = Some t \<and>
                    status t = PaymentStatus_REFUNDED) \<and>
               gateway db' = gateway db"
proof -
  from status_update_succeeds [OF assms, of PaymentStatus_REFUND_INITIATED]
  obtain db1 where db1: "paymentTransaction_update rid PaymentStatus_REFUND_INITIATED None db = Some db1"
    by blast
  from update_status_lookup [OF db1] obtain t where
    "paymentTransaction_findUnique rid db1 = Some t" "status t = PaymentStatus_REFUND_INITIATED"
    by blast
  then have svc: "PaymentService_refund isRefundSuccessful rid db1 = (Inr (), db1)"
    by (simp add: PaymentService_refund_def)
  from update_keeps_ids [OF db1] assms have "rid \<in> set (map id' (paymentTransaction db1))"
    by simp
  from status_update_succeeds [OF this, of PaymentStatus_REFUNDED]
  obtain db3 where db3: "paymentTransaction_update rid PaymentStatus_REFUNDED None db1 = Some db3"
    by blast
  have run: "refundPayment isRefundSuccessful rid db = (Inr (), db3)"
    using db1 svc db3 by (simp add: refundPayment_def)
  have "gateway db3 = gateway db"
    using update_keeps_gateway [OF db3] update_keeps_gateway [OF db1] by simp
  with run update_status_lookup [OF db3] show ?thesis by simp
qed

text \<open>The ledger \<open>charged_db\<close> is the one \<open>PaymentService.charge\<close> leaves.\<close>

lemma PaymentService_charge_charged_db:
  "PaymentService_charge ''pay-1'' True ''MOCK_TX_1'' ''order-1'' 20 empty_db =
     (Inr (''MOCK_TX_1'', ''pay-1''), charged_db)"
  by (simp add: PaymentService_charge_def paymentTransaction_create_def
                paymentTransaction_update_def set_data_def empty_db_def charged_db_def
                charged_row_def Let_def)

text \<open>
  C4. \<open>PaymentService.refund\<close> does nothing for a row that is not SUCCEEDED; for a row
  that is SUCCEEDED the refund through the activity \<open>refundPayment\<close> should call the
  gateway. It does not: for the charged payment \<open>pay-1\<close> the activity returns without
  an error, the row ends REFUNDED, and the gateway log still holds the charge alone,
  whatever the gateway would have answered.
\<close>

theorem refundPayment_skips_gateway:
  "refundPayment isRefundSuccessful ''pay-1'' charged_db =
     (Inr (), \<lparr>paymentTransaction = [charged_row\<lparr>status := PaymentStatus_REFUNDED\<rparr>],
               gateway = [GatewayCharge ''order-1'' 20]\<rparr>)"
  by (simp add: refundPayment_def PaymentService_refund_def paymentTransaction_update_def
                paymentTransaction_findUnique_def set_data_def charged_db_def charged_row_def)

text \<open>
  Called on its own, \<open>PaymentService.refund\<close> does reach the gateway for the same row,
  and ends REFUNDED or, with an error, REFUND_FAILED as the gateway answers; it does
  nothing for a row that is not SUCCEEDED.
\<close>

lemma PaymentService_refund_reaches_gateway:
  "PaymentService_refund True ''pay-1'' charged_db =
     (Inr (), \<lparr>paymentTransaction = [charged_row\<lparr>status := PaymentStatus_REFUNDED\<rparr>],
               gateway = [GatewayCharge ''order-1'' 20, GatewayRefund ''pay-1'']\<rparr>)"
  by (simp add: PaymentService_refund_def paymentTransaction_update_def
                paymentTransaction_findUnique_def set_data_def charged_db_def charged_row_def)

lemma PaymentService_refund_gateway_fails:
  "PaymentService_refund False ''pay-1'' charged_db =
     (Inl Error, \<lparr>paymentTransaction = [charged_row\<lparr>status := PaymentStatus_REFUND_FAILED\<rparr>],
                 gateway = [GatewayCharge ''order-1'' 20, GatewayRefund ''pay-1'']\<rparr>)"
  by (simp add: PaymentService_refund_def paymentTransaction_update_def
                paymentTransaction_findUnique_def set_data_def charged_db_def charged_row_def)

lemma PaymentService_refund_noop:
  "paymentTransaction_findUnique rid db = Some t \<Longrightarrow> status t \<noteq> PaymentStatus_SUCCEEDED \<Longrightarrow>
   PaymentService_refund isRefundSuccessful rid db = (Inr (), db)"
  by (simp add: PaymentService_refund_def)

text \<open>
  With two fresh ids, one call of the activity \<open>chargePayment\<close> adds two rows to the
  ledger: its own, and the one \<open>PaymentService.charge\<close> creates.
\<close>

lemma chargePayment_adds_two_rows:
  assumes "a \<notin> set (map id' (paymentTransaction db))"
    and "s \<notin> set (map id' (paymentTransaction db))"
    and "a \<noteq> s"
  shows "length (paymentTransaction (snd (chargePayment a s ok tx oid amt db))) =
         length (paymentTransaction db) + 2"
  using assms
  by (simp add: chargePayment_def chargePayment_catch_def PaymentService_charge_def
                paymentTransaction_create_def paymentTransaction_update_def Let_def)

text \<open>
  C5. One call of the activity \<open>chargePayment\<close> should create one PaymentTransaction
  row and move that row to SUCCEEDED or FAILED. On an empty ledger, with the gateway
  accepting the charge, it creates two rows: \<open>pay-1\<close>, the activity's own, and \<open>pay-2\<close>,
  the row of \<open>PaymentService.charge\<close>. The service's row ends SUCCEEDED with the
  external id. The activity's update of its own row to SUCCEEDED with the same external
  id meets the unique index, so its row ends FAILED and the activity throws a
  \<open>PaymentFailedError\<close>, after the gateway has taken the charge.
\<close>

theorem chargePayment_creates_two_rows:
  "chargePayment ''pay-1'' ''pay-2'' True ''MOCK_TX_1'' ''order-1'' 20 empty_db =
     (Inl PaymentFailedError,
      \<lparr>paymentTransaction =
         [\<lparr>id' = ''pay-1'', orderId = ''order-1'', externalTransactionId = None,
           amount = 20, status = PaymentStatus_FAILED\<rparr>,
          \<lparr>id' = ''pay-2'', orderId = ''order-1'', externalTransactionId = Some ''MOCK_TX_1'',
           amount = 20, status = PaymentStatus_SUCCEEDED\<rparr>],
       gateway = [GatewayCharge ''order-1'' 20]\<rparr>)"
  by (simp add: chargePayment_def chargePayment_catch_def PaymentService_charge_def
                paymentTransaction_create_def paymentTransaction_update_def set_data_def
                empty_db_def Let_def)

text \<open>
  Whatever the ledger holds and whatever the gateway answers, the activity
  \<open>chargePayment\<close> ends with an error: when the service has recorded the charge, the
  external id is already on the service's row.
\<close>

lemma chargePayment_never_succeeds:
  "\<exists>e. fst (chargePayment a s ok tx oid amt db) = Inl e"
  by (auto simp: chargePayment_def chargePayment_catch_def PaymentService_charge_def
                 paymentTransaction_create_def paymentTransaction_update_def set_data_def Let_def
           split: option.splits if_splits)

text \<open>When the gateway declines the charge, both rows end FAILED.\<close>

lemma chargePayment_declined_two_rows:
  "chargePayment ''pay-1'' ''pay-2'' False ''MOCK_TX_1'' ''order-1'' 20 empty_db =
     (Inl PaymentFailedError,
      \<lparr>paymentTransaction =
         [\<lparr>id' = ''pay-1'', orderId = ''order-1'', externalTransactionId = None,
           amount = 20, status = PaymentStatus_FAILED\<rparr>,
          \<lparr>id' = ''pay-2'', orderId = ''order-1'', externalTransactionId = None,
           amount = 20, status = PaymentStatus_FAILED\<rparr>],
       gateway = [GatewayCharge ''order-1'' 20]\<rparr>)"
  by (simp add: chargePayment_def chargePayment_catch_def PaymentService_charge_def
                paymentTransaction_create_def paymentTransaction_update_def set_data_def
                empty_db_def Let_def)


section \<open>Properties of the orchestrator\<close>

subsection \<open>Classification\<close>

text \<open>
  On causes that are objects of the two error classes, or that carry their names, the
  classifier gives the statuses its text intends.
\<close>

lemma classify_by_name:
  "(cause_name e = ''PaymentFailedError'' \<longrightarrow>
      fst (classify (ActivityFailure m (Some e))) = OrderStatus_PAYMENT_FAILED) \<and>
   (cause_name e = ''InsufficientStockError'' \<longrightarrow>
      fst (classify (ActivityFailure m (Some e))) = OrderStatus_INVENTORY_CHECK_FAILED) \<and>
   (cause_name e \<noteq> ''PaymentFailedError'' \<and> cause_name e \<noteq> ''InsufficientStockError'' \<longrightarrow>
      fst (classify (ActivityFailure m (Some e))) = OrderStatus_CANCELLED) \<and>
   fst (classify (ActivityFailure m None)) = OrderStatus_CANCELLED \<and>
   fst (classify (CancelledFailure m)) = OrderStatus_CANCELLED \<and>
   fst (classify (OtherFailure m)) = OrderStatus_CANCELLED"
  by (cases e) (simp_all add: is_PaymentFailedError_def is_InsufficientStockError_def)

text \<open>
  The forward activities list the two business errors as not retryable by the name of
  the error, which is what the \<open>type\<close> of the delivered cause carries.
\<close>

lemma forward_nonRetryableErrorTypes:
  "nonRetryableErrorTypes (retry forward_options) =
     [''PaymentFailedError'', ''InsufficientStockError'']"
  by (simp add: forward_options_def)

text \<open>
  A database error inside the activity \<open>chargePayment\<close> leaves the activity as a
  \<open>PaymentFailedError\<close> too: here the id of the service's new row is taken, the service
  throws an \<open>InternalServerErrorException\<close>, and the activity's \<open>catch\<close> turns it into
  the error that is never retried.
\<close>

lemma chargePayment_database_error:
  "fst (chargePayment ''pay-1'' ''pay-1'' True ''MOCK_TX_1'' ''order-1'' 20 empty_db) =
     Inl PaymentFailedError"
  by (simp add: chargePayment_def chargePayment_catch_def PaymentService_charge_def
                paymentTransaction_create_def paymentTransaction_update_def set_data_def
                empty_db_def Let_def)

text \<open>
  C6. A declined payment should end the order as PAYMENT_FAILED and a stock shortage as
  INVENTORY_CHECK_FAILED. The failures that reach the workflow when \<open>chargePayment\<close>
  has thrown a \<open>PaymentFailedError\<close> and when \<open>validateAndDecreaseInventory\<close> has
  thrown an \<open>InsufficientStockError\<close> have a cause named \<open>ApplicationFailure\<close>, which
  neither test of the classifier matches: both are classified CANCELLED, with the reason
  of an unknown activity failure, and the workflow ends the order as CANCELLED.
\<close>

theorem classifier_misses_delivered_errors:
  "classify payment_declined =
     (OrderStatus_CANCELLED, ''Activity execution failed: declined'') \<and>
   classify out_of_stock =
     (OrderStatus_CANCELLED, ''Activity execution failed: short'') \<and>
   snd (processOrderWorkflow sample_input
          (all_succeed\<lparr>chargePayment_result := Inl payment_declined\<rparr>)) =
     Returned ''order-1'' OrderStatus_CANCELLED \<and>
   snd (processOrderWorkflow sample_input
          (all_succeed\<lparr>validateAndDecreaseInventory_result := Some out_of_stock\<rparr>)) =
     Returned ''order-1'' OrderStatus_CANCELLED"
  by (simp add: processOrderWorkflow_def forward_steps_def compensation_def
                sample_input_def all_succeed_def payment_declined_def out_of_stock_def
                is_PaymentFailedError_def is_InsufficientStockError_def)

subsection \<open>The forward path\<close>

text \<open>
  C7. When every forward activity succeeds, the workflow calls the nine forward
  activities in the order of its text and nothing else, the statuses written to the
  order are PENDING, PROCESSING, PAID, AWAITING_FULFILLMENT and COMPLETED, each once and
  in this order, and the workflow returns the order id with COMPLETED.
\<close>

theorem happy_path_statuses:
  assumes "createPendingOrder_result res = Inr oid"
    and "markProcessing_result res = None"
    and "chargePayment_result res = Inr (transactionId, prid)"
    and "markPaid_result res = None"
    and "validateAndDecreaseInventory_result res = None"
    and "markAwaitingFulfillment_result res = None"
    and "notifyKitchen_result res = None"
    and "sendConfirmationEmail_result res = None"
    and "markCompleted_result res = None"
  shows "processOrderWorkflow inp res =
           ([CreatePendingOrder (userId inp) (userEmail inp) (totalAmount inp) (items inp),
             UpdateOrderStatus oid OrderStatus_PROCESSING,
             ChargePayment oid (totalAmount inp),
             UpdateOrderStatus oid OrderStatus_PAID,
             ValidateAndDecreaseInventory oid (stock_items (items inp)),
             UpdateOrderStatus oid OrderStatus_AWAITING_FULFILLMENT,
             NotifyKitchen oid (kitchen_items (items inp)),
             SendConfirmationEmail oid (userEmail inp),
             UpdateOrderStatus oid OrderStatus_COMPLETED],
            Returned oid OrderStatus_COMPLETED) \<and>
         status_history (fst (processOrderWorkflow inp res)) =
           [OrderStatus_PENDING, OrderStatus_PROCESSING, OrderStatus_PAID,
            OrderStatus_AWAITING_FULFILLMENT, OrderStatus_COMPLETED]"
  using assms by (simp add: processOrderWorkflow_def forward_steps_def status_history_def)

theorem happy_path_statuses_witness:
  "createPendingOrder_result all_succeed = Inr ''order-1'' \<and>
   markProcessing_result all_succeed = None \<and>
   chargePayment_result all_succeed = Inr (''MOCK_TX_1'', ''pay-1'') \<and>
   markPaid_result all_succeed = None \<and>
   validateAndDecreaseInventory_result all_succeed = None \<and>
   markAwaitingFulfillment_result all_succeed = None \<and>
   notifyKitchen_result all_succeed = None \<and>
   sendConfirmationEmail_result all_succeed = None \<and>
   markCompleted_result all_succeed = None \<and>
   snd (processOrderWorkflow sample_input all_succeed) =
     Returned ''order-1'' OrderStatus_COMPLETED \<and>
   status_history (fst (processOrderWorkflow sample_input all_succeed)) =
     [OrderStatus_PENDING, OrderStatus_PROCESSING, OrderStatus_PAID,
      OrderStatus_AWAITING_FULFILLMENT, OrderStatus_COMPLETED]"
  using happy_path_statuses
          [of all_succeed "''order-1''" "''MOCK_TX_1''" "''pay-1''" sample_input]
  by (simp add: all_succeed_def status_history_def)

text \<open>
  C10. When \<open>createPendingOrder\<close> fails, the workflow has called that activity and no
  other (no refund, no inventory restore, no status update, no failure email), and it
  returns the string \<open>N/A\<close> as the order id, with the status the classifier gives the
  failure.
\<close>

theorem no_order_id_no_compensation:
  assumes "createPendingOrder_result res = Inl err"
  shows "processOrderWorkflow inp res =
           ([CreatePendingOrder (userId inp) (userEmail inp) (totalAmount inp) (items inp)],
            Returned ''N/A'' (fst (classify err)))"
  using assms by (simp add: processOrderWorkflow_def forward_steps_def split: prod.splits)

theorem no_order_id_no_compensation_witness:
  "createPendingOrder_result (all_succeed\<lparr>createPendingOrder_result := Inl timed_out\<rparr>) =
     Inl timed_out \<and>
   processOrderWorkflow sample_input (all_succeed\<lparr>createPendingOrder_result := Inl timed_out\<rparr>) =
     ([CreatePendingOrder ''user-1'' ''user@example.org'' 20 (items sample_input)],
      Returned ''N/A'' OrderStatus_CANCELLED)"
  using no_order_id_no_compensation
          [of "all_succeed\<lparr>createPendingOrder_result := Inl timed_out\<rparr>" timed_out sample_input]
  by (simp add: sample_input_def timed_out_def is_PaymentFailedError_def
                is_InsufficientStockError_def)

subsection \<open>Compensation\<close>

lemma compensation_as_steps:
  "compensation inp res oid prid upd st reason =
     (attempted_until_failure (compensation_steps inp res oid prid upd st reason),
      first_failure (compensation_steps inp res oid prid upd st reason))"
  by (auto simp: compensation_def compensation_steps_def non_empty_def Let_def
           split: option.splits)

text \<open>
  C3, as the claim states it, fails: after a failed \<open>notifyKitchen\<close>, with the payment
  charged and the inventory decreased, a refund that fails is the last activity the
  workflow calls. The inventory restore, the status update and the failure email are not
  attempted.
\<close>

theorem later_compensations_skipped_counterexample:
  "fst (processOrderWorkflow sample_input
          (all_succeed\<lparr>notifyKitchen_result := Some timed_out,
                       refundPaymentCompensation_result := Some timed_out\<rparr>)) =
     [CreatePendingOrder ''user-1'' ''user@example.org'' 20 (items sample_input),
      UpdateOrderStatus ''order-1'' OrderStatus_PROCESSING,
      ChargePayment ''order-1'' 20,
      UpdateOrderStatus ''order-1'' OrderStatus_PAID,
      ValidateAndDecreaseInventory ''order-1'' (stock_items (items sample_input)),
      UpdateOrderStatus ''order-1'' OrderStatus_AWAITING_FULFILLMENT,
      NotifyKitchen ''order-1'' (kitchen_items (items sample_input)),
      RefundPaymentCompensation ''pay-1'']"
  by (simp add: processOrderWorkflow_def forward_steps_def compensation_def
                sample_input_def all_succeed_def timed_out_def
                is_PaymentFailedError_def is_InsufficientStockError_def)

text \<open>
  C3, amended. In a failed run with an order id that is not empty, the compensation steps
  that apply (the refund when a payment record id that is not empty exists, the inventory
  restore when the inventory was decreased, the status update, the failure email) are
  attempted in this order, each one only if every step attempted before it succeeded.
  The first one that fails is the last one attempted, and the workflow then throws an
  error naming both failures; when none fails the workflow returns the order id with the
  classified status.
\<close>

theorem compensation_stops_at_first_failure:
  assumes "forward_steps inp res = (calls, Inl (err, Some oid, prid, upd))"
    and "oid \<noteq> []"
    and "classify err = (st, reason)"
  shows "fst (processOrderWorkflow inp res) =
           calls @ attempted_until_failure (compensation_steps inp res oid prid upd st reason) \<and>
         snd (processOrderWorkflow inp res) =
           (case first_failure (compensation_steps inp res oid prid upd st reason) of
              None \<Rightarrow> Returned oid st
            | Some compensationError \<Rightarrow>
                Thrown (''Compensation failed after initial error: ''
                        @ failure_message compensationError
                        @ ''. Original error: '' @ failure_message err))"
  using assms
  by (simp add: processOrderWorkflow_def compensation_as_steps split: option.splits)

theorem compensation_stops_at_first_failure_witness:
  "forward_steps sample_input
     (all_succeed\<lparr>notifyKitchen_result := Some timed_out,
                  restoreInventoryCompensation_result := Some timed_out\<rparr>) =
     ([CreatePendingOrder ''user-1'' ''user@example.org'' 20 (items sample_input),
       UpdateOrderStatus ''order-1'' OrderStatus_PROCESSING,
       ChargePayment ''order-1'' 20,
       UpdateOrderStatus ''order-1'' OrderStatus_PAID,
       ValidateAndDecreaseInventory ''order-1'' (stock_items (items sample_input)),
       UpdateOrderStatus ''order-1'' OrderStatus_AWAITING_FULFILLMENT,
       NotifyKitchen ''order-1'' (kitchen_items (items sample_input))],
      Inl (timed_out, Some ''order-1'', Some ''pay-1'', True)) \<and>
   ''order-1'' \<noteq> [] \<and>
   classify timed_out = (OrderStatus_CANCELLED, ''Activity execution failed: timeout'') \<and>
   fst (processOrderWorkflow sample_input
          (all_succeed\<lparr>notifyKitchen_result := Some timed_out,
                       restoreInventoryCompensation_result := Some timed_out\<rparr>)) =
     [CreatePendingOrder ''user-1'' ''user@example.org'' 20 (items sample_input),
      UpdateOrderStatus ''order-1'' OrderStatus_PROCESSING,
      ChargePayment ''order-1'' 20,
      UpdateOrderStatus ''order-1'' OrderStatus_PAID,
      ValidateAndDecreaseInventory ''order-1'' (stock_items (items sample_input)),
      UpdateOrderStatus ''order-1'' OrderStatus_AWAITING_FULFILLMENT,
      NotifyKitchen ''order-1'' (kitchen_items (items sample_input)),
      RefundPaymentCompensation ''pay-1'',
      RestoreInventoryCompensation ''order-1'' (stock_items (items sample_input))] \<and>
   snd (processOrderWorkflow sample_input
          (all_succeed\<lparr>notifyKitchen_result := Some timed_out,
                       restoreInventoryCompensation_result := Some timed_out\<rparr>)) =
     Thrown ''Compensation failed after initial error: Activity task timed out. Original error: Activity task timed out''"
  using compensation_stops_at_first_failure
    [of sample_input
        "all_succeed\<lparr>notifyKitchen_result := Some timed_out,
                     restoreInventoryCompensation_result := Some timed_out\<rparr>"
        "[CreatePendingOrder ''user-1'' ''user@example.org'' 20 (items sample_input),
          UpdateOrderStatus ''order-1'' OrderStatus_PROCESSING,
          ChargePayment ''order-1'' 20,
          UpdateOrderStatus ''order-1'' OrderStatus_PAID,
          ValidateAndDecreaseInventory ''order-1'' (stock_items (items sample_input)),
          UpdateOrderStatus ''order-1'' OrderStatus_AWAITING_FULFILLMENT,
          NotifyKitchen ''order-1'' (kitchen_items (items sample_input))]"
        timed_out "''order-1''" "Some ''pay-1''" True OrderStatus_CANCELLED
        "''Activity execution failed: timeout''"]
  by (simp add: forward_steps_def sample_input_def all_succeed_def timed_out_def
                is_PaymentFailedError_def is_InsufficientStockError_def
                compensation_steps_def non_empty_def)

text \<open>
  C9, as the claim states it, fails: when the charge fails and the status update of the
  compensation fails, the workflow does not return; it throws.
\<close>

theorem compensation_failure_is_thrown_counterexample:
  "snd (processOrderWorkflow sample_input
          (all_succeed\<lparr>chargePayment_result := Inl payment_declined,
                       updateOrderStatusCompensation_result := Some timed_out\<rparr>)) =
     Thrown ''Compensation failed after initial error: Activity task timed out. Original error: Activity task failed''"
  by (simp add: processOrderWorkflow_def forward_steps_def compensation_def
                sample_input_def all_succeed_def timed_out_def payment_declined_def
                is_PaymentFailedError_def is_InsufficientStockError_def)

lemma first_failure_all_succeed:
  assumes "refundPaymentCompensation_result res = None"
    and "restoreInventoryCompensation_result res = None"
    and "updateOrderStatusCompensation_result res = None"
    and "sendFailureEmailCompensation_result res = None"
  shows "first_failure (compensation_steps inp res oid prid upd st reason) = None"
  using assms by (simp add: compensation_steps_def)

lemma workflow_result:
  "snd (processOrderWorkflow inp res) =
     (case snd (forward_steps inp res) of
        Inr oid \<Rightarrow> Returned oid OrderStatus_COMPLETED
      | Inl (err, orderId_var, paymentRecordId, inventoryUpdated) \<Rightarrow>
          (case orderId_var of
             None \<Rightarrow> Returned ''N/A'' (fst (classify err))
           | Some oid \<Rightarrow>
               if oid = [] then Returned oid (fst (classify err))
               else
                 (case first_failure
                         (compensation_steps inp res oid paymentRecordId inventoryUpdated
                            (fst (classify err)) (snd (classify err))) of
                    None \<Rightarrow> Returned oid (fst (classify err))
                  | Some compensationError \<Rightarrow>
                      Thrown (''Compensation failed after initial error: ''
                              @ failure_message compensationError
                              @ ''. Original error: '' @ failure_message err))))"
proof (cases "forward_steps inp res")
  case (Pair calls outcome)
  show ?thesis
  proof (cases outcome)
    case (Inr oid)
    with Pair show ?thesis by (simp add: processOrderWorkflow_def)
  next
    case (Inl failed)
    obtain err v prid upd where failed: "failed = (err, v, prid, upd)"
      by (cases failed) auto
    obtain st reason where cl: "classify err = (st, reason)"
      by (cases "classify err") auto
    from Pair Inl failed cl show ?thesis
      by (simp add: processOrderWorkflow_def compensation_as_steps split: option.splits)
  qed
qed

text \<open>
  C9, amended. The workflow returns the order id with a final status in every run in
  which no compensation activity fails: with COMPLETED when the forward steps succeed,
  and otherwise with the order id (\<open>N/A\<close> when there is none) and the status the
  classifier gives the failure of the forward step. In every run, it returns in this way
  unless a compensation step that is attempted fails, and when one does it throws an
  error naming the failure of that step and the failure of the forward step.
\<close>

theorem returns_unless_compensation_fails:
  "(refundPaymentCompensation_result res = None \<and>
    restoreInventoryCompensation_result res = None \<and>
    updateOrderStatusCompensation_result res = None \<and>
    sendFailureEmailCompensation_result res = None \<longrightarrow>
      snd (processOrderWorkflow inp res) =
        (case snd (forward_steps inp res) of
           Inr oid \<Rightarrow> Returned oid OrderStatus_COMPLETED
         | Inl (err, orderId_var, paymentRecordId, inventoryUpdated) \<Rightarrow>
             Returned (case orderId_var of None \<Rightarrow> ''N/A'' | Some oid \<Rightarrow> oid)
                      (fst (classify err)))) \<and>
   snd (processOrderWorkflow inp res) =
     (case snd (forward_steps inp res) of
        Inr oid \<Rightarrow> Returned oid OrderStatus_COMPLETED
      | Inl (err, orderId_var, paymentRecordId, inventoryUpdated) \<Rightarrow>
          (case orderId_var of
             None \<Rightarrow> Returned ''N/A'' (fst (classify err))
           | Some oid \<Rightarrow>
               if oid = [] then Returned oid (fst (classify err))
               else
                 (case first_failure
                         (compensation_steps inp res oid paymentRecordId inventoryUpdated
                            (fst (classify err)) (snd (classify err))) of
                    None \<Rightarrow> Returned oid (fst (classify err))
                  | Some compensationError \<Rightarrow>
                      Thrown (''Compensation failed after initial error: ''
                              @ failure_message compensationError
                              @ ''. Original error: '' @ failure_message err))))"
proof (intro conjI impI)
  assume "refundPaymentCompensation_result res = None \<and>
    restoreInventoryCompensation_result res = None \<and>
    updateOrderStatusCompensation_result res = None \<and>
    sendFailureEmailCompensation_result res = None"
  then have "\<And>oid prid upd st reason.
      first_failure (compensation_steps inp res oid prid upd st reason) = None"
    by (simp add: first_failure_all_succeed)
  then show "snd (processOrderWorkflow inp res) =
        (case snd (forward_steps inp res) of
           Inr oid \<Rightarrow> Returned oid OrderStatus_COMPLETED
         | Inl (err, orderId_var, paymentRecordId, inventoryUpdated) \<Rightarrow>
             Returned (case orderId_var of None \<Rightarrow> ''N/A'' | Some oid \<Rightarrow> oid)
                      (fst (classify err)))"
    by (simp add: workflow_result split: sum.splits option.splits prod.splits)
next
  show "snd (processOrderWorkflow inp res) =
     (case snd (forward_steps inp res) of
        Inr oid \<Rightarrow> Returned oid OrderStatus_COMPLETED
      | Inl (err, orderId_var, paymentRecordId, inventoryUpdated) \<Rightarrow>
          (case orderId_var of
             None \<Rightarrow> Returned ''N/A'' (fst (classify err))
           | Some oid \<Rightarrow>
               if oid = [] then Returned oid (fst (classify err))
               else
                 (case first_failure
                         (compensation_steps inp res oid paymentRecordId inventoryUpdated
                            (fst (classify err)) (snd (classify err))) of
                    None \<Rightarrow> Returned oid (fst (classify err))
                  | Some compensationError \<Rightarrow>
                      Thrown (''Compensation failed after initial error: ''
                              @ failure_message compensationError
                              @ ''. Original error: '' @ failure_message err))))"
    by (rule workflow_result)
qed

theorem returns_unless_compensation_fails_witness:
  "refundPaymentCompensation_result
     (all_succeed\<lparr>validateAndDecreaseInventory_result := Some out_of_stock\<rparr>) = None \<and>
   restoreInventoryCompensation_result
     (all_succeed\<lparr>validateAndDecreaseInventory_result := Some out_of_stock\<rparr>) = None \<and>
   updateOrderStatusCompensation_result
     (all_succeed\<lparr>validateAndDecreaseInventory_result := Some out_of_stock\<rparr>) = None \<and>
   sendFailureEmailCompensation_result
     (all_succeed\<lparr>validateAndDecreaseInventory_result := Some out_of_stock\<rparr>) = None \<and>
   snd (processOrderWorkflow sample_input
          (all_succeed\<lparr>validateAndDecreaseInventory_result := Some out_of_stock\<rparr>)) =
     Returned ''order-1'' OrderStatus_CANCELLED \<and>
   snd (processOrderWorkflow sample_input
          (all_succeed\<lparr>validateAndDecreaseInventory_result := Some out_of_stock,
                       sendFailureEmailCompensation_result := Some timed_out\<rparr>)) =
     Thrown ''Compensation failed after initial error: Activity task timed out. Original error: Activity task failed''"
  using returns_unless_compensation_fails
          [of "all_succeed\<lparr>validateAndDecreaseInventory_result := Some out_of_stock\<rparr>"
              sample_input]
        returns_unless_compensation_fails
          [of "all_succeed\<lparr>validateAndDecreaseInventory_result := Some out_of_stock,
                           sendFailureEmailCompensation_result := Some timed_out\<rparr>"
              sample_input]
  by (simp add: forward_steps_def compensation_steps_def non_empty_def all_succeed_def
                out_of_stock_def timed_out_def is_PaymentFailedError_def
                is_InsufficientStockError_def)

end
